theory Spec2Isabelle
  imports Main
begin

section \<open>Addresses and exceptions\<close>

text \<open>
  A \<^verbatim>\<open>void*\<close> is an address, a natural number; the null pointer is address 0.
  The values of \<^verbatim>\<open>size_t\<close> are naturals as well: no arithmetic of the program
  can overflow (the only one is the loop counter, which stays below \<open>capacity\<close>).
\<close>

type_synonym addr = nat

definition nullptr :: addr where
  "nullptr = 0"

text \<open>
  The exceptions that can leave the functions of the program: \<open>bad_alloc\<close> (thrown by
  \<^verbatim>\<open>MemoryPool::allocate\<close>, by \<^verbatim>\<open>PoolAllocator::allocate\<close> and by the
  storage reservation of the vector), \<open>length_error\<close> (thrown by
  \<^verbatim>\<open>vector::reserve\<close> beyond \<^verbatim>\<open>max_size()\<close>), and whatever the constructor of
  a pooled type throws.
\<close>

datatype exn = bad_alloc | length_error | thrown string

section \<open>The block pool\<close>

text \<open>
  \<^verbatim>\<open>class MemoryPool { vector<void*> blocks; size_t blockSize; size_t capacity; }\<close>.
  The vector is a list whose last element is \<^verbatim>\<open>blocks.back()\<close>.
\<close>

record MemoryPool =
  blocks :: "addr list"
  blockSize :: nat
  capacity :: nat

text \<open>
  Every member function takes the pool and returns its outcome together with the pool
  as the call leaves it. An exception is the outcome \<open>Inl\<close>.
\<close>

definition allocate :: "MemoryPool \<Rightarrow> (exn + addr) \<times> MemoryPool" where
  "allocate p =
     (if blocks p = [] then (Inl bad_alloc, p)
      else (Inr (last (blocks p)), p\<lparr>blocks := butlast (blocks p)\<rparr>))"

text \<open>
  \<^verbatim>\<open>blocks.push_back(block)\<close> appends. Under the precondition of \<^verbatim>\<open>deallocate\<close>
  the vector never outgrows the storage the constructor reserved, so \<^verbatim>\<open>push_back\<close>
  does not throw.
\<close>

definition deallocate :: "addr \<Rightarrow> MemoryPool \<Rightarrow> MemoryPool" where
  "deallocate block p = p\<lparr>blocks := blocks p @ [block]\<rparr>"

definition hasAvailableMemory :: "MemoryPool \<Rightarrow> bool \<times> MemoryPool" where
  "hasAvailableMemory p = (blocks p \<noteq> [], p)"

section \<open>The allocator adapter\<close>

text \<open>\<^verbatim>\<open>PoolAllocator<T>::allocate(n)\<close> on the pool it refers to, as in main.cpp.\<close>

definition PoolAllocator_allocate :: "nat \<Rightarrow> MemoryPool \<Rightarrow> (exn + addr) \<times> MemoryPool" where
  "PoolAllocator_allocate n p =
     (if n = 0 then (Inr nullptr, p)
      else case hasAvailableMemory p of
             (avail, p1) \<Rightarrow> if \<not> avail then (Inl bad_alloc, p1) else allocate p1)"

text \<open>The earlier version of the file has no test of its own before \<^verbatim>\<open>pool.allocate()\<close>.\<close>

definition PoolAllocator_allocate_v0 :: "nat \<Rightarrow> MemoryPool \<Rightarrow> (exn + addr) \<times> MemoryPool" where
  "PoolAllocator_allocate_v0 n p =
     (if n = 0 then (Inr nullptr, p) else allocate p)"

section \<open>The system allocator\<close>

text \<open>
  The pool draws its blocks from \<^verbatim>\<open>malloc\<close> and the vector draws its storage from
  \<^verbatim>\<open>operator new\<close>; both belong to the environment. The environment of one run is
  a value: \<open>answers\<close> are the results \<^verbatim>\<open>malloc\<close> gives to the requests to come, in
  order, a null pointer standing for a refused request, and every request after the last
  answer is refused; \<open>acquired\<close> are the blocks handed out and not yet given back, each
  with the size it was requested with; \<open>vec_max\<close> is \<^verbatim>\<open>vector<void*>::max_size()\<close>
  and \<open>vec_budget\<close> the largest number of elements \<^verbatim>\<open>operator new\<close> can give storage
  for.
\<close>

record sysheap =
  answers :: "addr list"
  acquired :: "(addr \<times> nat) list"
  vec_max :: nat
  vec_budget :: nat

definition malloc :: "nat \<Rightarrow> sysheap \<Rightarrow> addr \<times> sysheap" where
  "malloc sz h =
     (case answers h of
        [] \<Rightarrow> (nullptr, h)
      | a # as \<Rightarrow>
          (a, h\<lparr>answers := as,
                acquired := (if a = nullptr then acquired h else acquired h @ [(a, sz)])\<rparr>))"

text \<open>\<^verbatim>\<open>blocks.reserve(n)\<close> on the empty vector: the exception it throws, if any.\<close>

definition reserve :: "nat \<Rightarrow> sysheap \<Rightarrow> exn option" where
  "reserve n h =
     (if vec_max h < n then Some length_error
      else if vec_budget h < n then Some bad_alloc
      else None)"

text \<open>
  The system allocator satisfies the next \<open>n\<close> requests when it answers each of them
  with a block: a non-null address, different from the other blocks it has out.
\<close>

definition satisfied :: "nat \<Rightarrow> sysheap \<Rightarrow> bool" where
  "satisfied n h \<longleftrightarrow>
     n \<le> length (answers h) \<and> nullptr \<notin> set (take n (answers h)) \<and>
     distinct (take n (answers h))"

section \<open>Construction of the pool\<close>

text \<open>
  \<^verbatim>\<open>for (size_t i = 0; i < capacity; ++i) blocks.push_back(malloc(blockSize));\<close>
  The result of \<^verbatim>\<open>malloc\<close> is pushed as it comes.
\<close>

function ctor_loop :: "nat \<Rightarrow> nat \<Rightarrow> nat \<Rightarrow> addr list \<Rightarrow> sysheap \<Rightarrow> addr list \<times> sysheap" where
  "ctor_loop i cap bs blks h =
     (if i < cap
      then ctor_loop (Suc i) cap bs (blks @ [fst (malloc bs h)]) (snd (malloc bs h))
      else (blks, h))"
  by pat_completeness auto
termination
  by (relation "measure (\<lambda>(i, cap, bs, blks, h). cap - i)") auto

definition MemoryPool_ctor :: "nat \<Rightarrow> nat \<Rightarrow> sysheap \<Rightarrow> (exn + MemoryPool) \<times> sysheap" where
  "MemoryPool_ctor bs cap h =
     (case reserve cap h of
        Some e \<Rightarrow> (Inl e, h)
      | None \<Rightarrow>
          (case ctor_loop 0 cap bs [] h of
             (blks, h') \<Rightarrow> (Inr \<lparr>blocks = blks, blockSize = bs, capacity = cap\<rparr>, h')))"

section \<open>Sequences of calls\<close>

text \<open>
  \<open>roundtrip k\<close> performs \<^verbatim>\<open>pool.deallocate(pool.allocate())\<close> \<open>k\<close> times and stops at
  the first exception.
\<close>

fun roundtrip :: "nat \<Rightarrow> MemoryPool \<Rightarrow> (exn + unit) \<times> MemoryPool" where
  "roundtrip 0 p = (Inr (), p)"
| "roundtrip (Suc k) p =
     (case allocate p of
        (Inl e, p') \<Rightarrow> (Inl e, p')
      | (Inr b, p') \<Rightarrow> roundtrip k (deallocate b p'))"

text \<open>\<open>allocs n\<close> performs \<open>n\<close> consecutive calls of \<^verbatim>\<open>allocate()\<close> and lists their outcomes.\<close>

fun allocs :: "nat \<Rightarrow> MemoryPool \<Rightarrow> (exn + addr) list \<times> MemoryPool" where
  "allocs 0 p = ([], p)"
| "allocs (Suc n) p =
     (case allocate p of
        (r, p') \<Rightarrow> (case allocs n p' of (rs, p'') \<Rightarrow> (r # rs, p'')))"

text \<open>
  A caller of the pool and the blocks it has checked out (the pool keeps no record of
  them). A call of \<^verbatim>\<open>allocate\<close> that throws leaves the caller with what it had.
\<close>

datatype call = Allocate | Deallocate addr

fun call_step :: "call \<Rightarrow> MemoryPool \<times> addr list \<Rightarrow> MemoryPool \<times> addr list" where
  "call_step Allocate (p, out) =
     (case allocate p of
        (Inl e, p') \<Rightarrow> (p', out)
      | (Inr b, p') \<Rightarrow> (p', b # out))"
| "call_step (Deallocate b) (p, out) = (deallocate b p, remove1 b out)"

text \<open>
  The precondition of \<^verbatim>\<open>deallocate\<close>: the block is one the caller has checked out of
  this pool and has not returned yet.
\<close>

fun in_contract :: "call list \<Rightarrow> MemoryPool \<times> addr list \<Rightarrow> bool" where
  "in_contract [] s = True"
| "in_contract (Allocate # cs) s = in_contract cs (call_step Allocate s)"
| "in_contract (Deallocate b # cs) s =
     (b \<in> set (snd s) \<and> in_contract cs (call_step (Deallocate b) s))"

text \<open>The states a sequence of calls goes through, the first and the last included.\<close>

fun run_states :: "call list \<Rightarrow> MemoryPool \<times> addr list \<Rightarrow> (MemoryPool \<times> addr list) list" where
  "run_states [] s = [s]"
| "run_states (c # cs) s = s # run_states cs (call_step c s)"

text \<open>No address is twice in the free list, twice checked out, or both free and checked out.\<close>

definition no_alias :: "MemoryPool \<times> addr list \<Rightarrow> bool" where
  "no_alias s \<longleftrightarrow> distinct (blocks (fst s) @ snd s)"

section \<open>The typed object wrapper\<close>

text \<open>
  The program state the wrapper works on: the pool and the memory of the objects, of any
  type \<open>'m\<close>. A pooled type \<^verbatim>\<open>T\<close> is given by its constructor, which builds the value at
  an address from the arguments and may throw (the exception, if any, and the state it
  leaves), and its destructor. Both may use the pool, as those of a container over
  \<^verbatim>\<open>PoolAllocator\<close> do.
\<close>

record 'm world =
  pool :: MemoryPool
  mem :: 'm

record ('a, 'm) ctype =
  construct :: "addr \<Rightarrow> 'a \<Rightarrow> 'm world \<Rightarrow> exn option \<times> 'm world"
  destruct :: "addr \<Rightarrow> 'm world \<Rightarrow> 'm world"

text \<open>\<^verbatim>\<open>unique_ptr<T, function<void(T*)>>\<close>: the pointer owned and the deleter.\<close>

record 'm unique_ptr =
  ptr :: addr
  deleter :: "addr \<Rightarrow> 'm world \<Rightarrow> 'm world"

text \<open>
  The deleter lambda of \<^verbatim>\<open>make_unique_pool\<close>:
  \<^verbatim>\<open>ptr->~T(); pool.deallocate(ptr);\<close>
\<close>

definition pool_deleter :: "('a, 'm) ctype \<Rightarrow> addr \<Rightarrow> 'm world \<Rightarrow> 'm world" where
  "pool_deleter T p w =
     (let w1 = destruct T p w
      in w1\<lparr>pool := deallocate p (pool w1)\<rparr>)"

text \<open>
  \<^verbatim>\<open>void* memory = pool.allocate(); T* ptr = new (memory) T(args...);
  return unique_ptr<...>(ptr, deleter);\<close>
  Nothing catches an exception of \<^verbatim>\<open>allocate\<close> or of the constructor; when the
  constructor throws, the placement form of \<^verbatim>\<open>operator delete\<close> that the new
  expression calls does nothing. The address goes to the constructor as it comes from
  the pool (constructing at a null pointer is undefined in C++).
\<close>

definition make_unique_pool ::
    "('a, 'm) ctype \<Rightarrow> 'a \<Rightarrow> 'm world \<Rightarrow> (exn + 'm unique_ptr) \<times> 'm world" where
  "make_unique_pool T args w =
     (case allocate (pool w) of
        (Inl e, p') \<Rightarrow> (Inl e, w\<lparr>pool := p'\<rparr>)
      | (Inr memory, p') \<Rightarrow>
          (case construct T memory args (w\<lparr>pool := p'\<rparr>) of
             (Some e, w') \<Rightarrow> (Inl e, w')
           | (None, w') \<Rightarrow> (Inr \<lparr>ptr = memory, deleter = pool_deleter T\<rparr>, w')))"

text \<open>
  Releasing a handle, as the destructor and \<^verbatim>\<open>reset()\<close> of \<^verbatim>\<open>std::unique_ptr\<close> do:
  the deleter is called on the pointer owned unless that is null, and the handle owns
  nothing afterwards.
\<close>

definition unique_ptr_reset :: "'m unique_ptr \<Rightarrow> 'm world \<Rightarrow> 'm unique_ptr \<times> 'm world" where
  "unique_ptr_reset u w =
     (let old = ptr u
      in if old \<noteq> nullptr then (u\<lparr>ptr := nullptr\<rparr>, deleter u old w)
         else (u\<lparr>ptr := nullptr\<rparr>, w))"

section \<open>Pooled types and inputs of the examples\<close>

text \<open>
  \<^verbatim>\<open>create<int>(42)\<close> of the demonstration: the constructor stores the value, the
  destructor does nothing. The memory maps an address to the value it holds.
\<close>

definition int_type :: "(int, addr \<rightharpoonup> int) ctype" where
  "int_type =
     \<lparr>construct = (\<lambda>a v w. (None, w\<lparr>mem := (mem w)(a \<mapsto> v)\<rparr>)),
      destruct = (\<lambda>a w. w)\<rparr>"

text \<open>A type whose constructor throws on a negative argument before it stores anything.\<close>

definition checked_type :: "(int, addr \<rightharpoonup> int) ctype" where
  "checked_type =
     \<lparr>construct = (\<lambda>a v w. if v < 0 then (Some (thrown ''negative''), w)
                             else (None, w\<lparr>mem := (mem w)(a \<mapsto> v)\<rparr>)),
      destruct = (\<lambda>a w. w)\<rparr>"

text \<open>
  A type whose destructor notes, in a log that is the whole memory, the address of the
  value and the number of free blocks it finds in the pool.
\<close>

definition probe_type :: "(unit, (addr \<times> nat) list) ctype" where
  "probe_type =
     \<lparr>construct = (\<lambda>a u w. (None, w)),
      destruct = (\<lambda>a w. w\<lparr>mem := mem w @ [(a, length (blocks (pool w)))]\<rparr>)\<rparr>"

text \<open>A system allocator that has one block of memory left, and one that has four.\<close>

definition heap_one :: sysheap where
  "heap_one = \<lparr>answers = [4096], acquired = [], vec_max = 2 ^ 60, vec_budget = 1024\<rparr>"

definition heap_four :: sysheap where
  "heap_four =
     \<lparr>answers = [4096, 4112, 4128, 4144], acquired = [], vec_max = 2 ^ 60, vec_budget = 1024\<rparr>"

text \<open>A system allocator that refuses every request for a block.\<close>

definition heap_none :: sysheap where
  "heap_none = \<lparr>answers = [], acquired = [], vec_max = 2 ^ 60, vec_budget = 1024\<rparr>"

text \<open>A pool of two blocks of four bytes, both free, and the same pool with both out.\<close>

definition pool_two :: MemoryPool where
  "pool_two = \<lparr>blocks = [4096, 4112], blockSize = 4, capacity = 2\<rparr>"

definition pool_spent :: MemoryPool where
  "pool_spent = \<lparr>blocks = [], blockSize = 4, capacity = 2\<rparr>"

text \<open>The states of the program the examples start from.\<close>

definition world_two :: "(addr \<rightharpoonup> int) world" where
  "world_two = \<lparr>pool = pool_two, mem = Map.empty\<rparr>"

definition world_spent :: "(addr \<rightharpoonup> int) world" where
  "world_spent = \<lparr>pool = pool_spent, mem = Map.empty\<rparr>"

definition world_probe :: "(addr \<times> nat) list world" where
  "world_probe = \<lparr>pool = pool_two, mem = []\<rparr>"

section \<open>Properties of the pool operations\<close>

declare ctor_loop.simps [simp del]

lemma allocate_nonempty:
  "blocks p \<noteq> [] \<Longrightarrow>
     allocate p = (Inr (last (blocks p)), p\<lparr>blocks := butlast (blocks p)\<rparr>)"
  by (simp add: allocate_def)

lemma roundtrip_id: "blocks p \<noteq> [] \<Longrightarrow> roundtrip k p = (Inr (), p)"
proof (induction k)
  case 0
  show ?case by simp
next
  case (Suc k)
  from Suc.prems have "deallocate (last (blocks p)) (p\<lparr>blocks := butlast (blocks p)\<rparr>) = p"
    by (simp add: deallocate_def)
  with Suc show ?case
    by (simp add: allocate_nonempty)
qed

text \<open>The two versions of \<^verbatim>\<open>PoolAllocator::allocate\<close> do the same.\<close>

lemma PoolAllocator_allocate_versions:
  "PoolAllocator_allocate n p = PoolAllocator_allocate_v0 n p"
  by (simp add: PoolAllocator_allocate_def PoolAllocator_allocate_v0_def
      hasAvailableMemory_def allocate_def)

text \<open>
  The loop of the constructor pushes what \<^verbatim>\<open>malloc\<close> answers to the requests it
  makes, a null pointer for each request refused, and gives nothing back.
\<close>

lemma ctor_loop_eq:
  "ctor_loop i cap bs blks h =
     (blks @ take (cap - i) (answers h) @ replicate (cap - i - length (answers h)) nullptr,
      h\<lparr>answers := drop (cap - i) (answers h),
        acquired := acquired h @
          map (\<lambda>a. (a, bs)) (filter (\<lambda>a. a \<noteq> nullptr) (take (cap - i) (answers h)))\<rparr>)"
proof (induction i cap bs blks h rule: ctor_loop.induct)
  case (1 i cap bs blks h)
  show ?case
  proof (cases "i < cap")
    case False
    then show ?thesis by (simp add: ctor_loop.simps [of i])
  next
    case True
    then obtain k where k: "cap - i = Suc k" "cap - Suc i = k"
      by (metis Suc_diff_Suc)
    show ?thesis
    proof (cases "answers h")
      case Nil
      with True k "1.IH" show ?thesis
        by (simp add: ctor_loop.simps [of i] malloc_def replicate_append_same)
    next
      case (Cons a as)
      with True k "1.IH" show ?thesis
        by (simp add: ctor_loop.simps [of i] malloc_def)
    qed
  qed
qed

text \<open>
  \<open>n\<close> consecutive calls of \<^verbatim>\<open>allocate\<close> return the free list from its end, and
  throw once it is used up.
\<close>

lemma allocs_eq:
  "allocs n p =
     (map Inr (take n (rev (blocks p))) @ replicate (n - length (blocks p)) (Inl bad_alloc),
      p\<lparr>blocks := take (length (blocks p) - n) (blocks p)\<rparr>)"
proof (induction n arbitrary: p)
  case 0
  show ?case by simp
next
  case (Suc n)
  show ?case
  proof (cases "blocks p" rule: rev_cases)
    case Nil
    then show ?thesis
      by (simp add: allocate_def Suc.IH replicate_append_same)
  next
    case (snoc xs x)
    then show ?thesis
      by (simp add: allocate_def Suc.IH)
  qed
qed

text \<open>A call within the contract keeps the free and the checked-out addresses apart.\<close>

lemma call_step_no_alias:
  assumes "no_alias s" and "\<And>b. c = Deallocate b \<Longrightarrow> b \<in> set (snd s)"
  shows "no_alias (call_step c s)"
proof (cases s)
  case (Pair p out)
  show ?thesis
  proof (cases c)
    case Allocate
    show ?thesis
    proof (cases "blocks p" rule: rev_cases)
      case Nil
      with assms(1) Pair Allocate show ?thesis
        by (simp add: no_alias_def allocate_def)
    next
      case (snoc xs x)
      with assms(1) Pair Allocate show ?thesis
        by (auto simp: no_alias_def allocate_def)
    qed
  next
    case (Deallocate b)
    with assms(2) Pair have "b \<in> set out" by simp
    with assms(1) Pair Deallocate show ?thesis
      by (auto simp: no_alias_def deallocate_def)
  qed
qed

lemma run_states_no_alias:
  "no_alias s \<Longrightarrow> in_contract cs s \<Longrightarrow> s' \<in> set (run_states cs s) \<Longrightarrow> no_alias s'"
proof (induction cs arbitrary: s)
  case Nil
  then show ?case by simp
next
  case (Cons c cs)
  from Cons.prems(1,2) have step: "no_alias (call_step c s)"
    by (cases c) (auto intro: call_step_no_alias)
  from Cons.prems(2) have rest: "in_contract cs (call_step c s)"
    by (cases c) auto
  from Cons.prems(3) show ?case
    using Cons.IH [OF step rest] Cons.prems(1) by auto
qed

lemma no_alias_allocate:
  "no_alias s \<Longrightarrow> allocate (fst s) = (Inr b, p') \<Longrightarrow> b \<notin> set (snd s) \<and> b \<notin> set (blocks p')"
  by (cases "blocks (fst s)" rule: rev_cases)
    (auto simp: no_alias_def allocate_def)

text \<open>
  A pool constructed on requests that were all satisfied starts with a free list without
  repetition and nothing checked out.
\<close>

lemma MemoryPool_ctor_no_alias:
  assumes "MemoryPool_ctor bs N h = (Inr p, h')" and "satisfied N h"
  shows "no_alias (p, [])"
proof -
  from assms(1) have "blocks p = take N (answers h) @ replicate (N - length (answers h)) nullptr"
    by (auto simp: MemoryPool_ctor_def ctor_loop_eq split: option.splits)
  with assms(2) show ?thesis
    by (simp add: no_alias_def satisfied_def)
qed

section \<open>The claims\<close>

subsection \<open>C1: a constructed pool serves exactly \<open>capacity\<close> allocations\<close>

text \<open>
  The constructor pushes the answer of \<^verbatim>\<open>malloc\<close> without looking at it. With a
  system allocator that refuses both requests, the pool of capacity 2 is constructed
  with two null entries, and the two calls of \<^verbatim>\<open>allocate\<close> that succeed return the
  same address.
\<close>

theorem allocs_doubled_counterexample:
  "MemoryPool_ctor 4 2 heap_none =
     (Inr \<lparr>blocks = [nullptr, nullptr], blockSize = 4, capacity = 2\<rparr>, heap_none) \<and>
   fst (allocs 3 \<lparr>blocks = [nullptr, nullptr], blockSize = 4, capacity = 2\<rparr>) =
     [Inr nullptr, Inr nullptr, Inl bad_alloc] \<and>
   \<not> distinct [nullptr, nullptr]"
  by (simp add: MemoryPool_ctor_def reserve_def ctor_loop.simps malloc_def heap_none_def
      allocate_def numeral_3_eq_3)

text \<open>
  Claim C1, as the code has it. For every pool constructed with capacity \<open>N\<close>, the
  first \<open>N\<close> of \<open>N + 1\<close> consecutive calls of \<^verbatim>\<open>allocate()\<close> succeed, returning the
  free list from its end, and the last one throws \<open>bad_alloc\<close>, leaving the pool empty.
  When the system allocator satisfied the \<open>N\<close> requests of the construction, the \<open>N\<close>
  addresses returned are pairwise distinct and none is null.
\<close>

theorem allocs_constructed:
  assumes "MemoryPool_ctor bs N h = (Inr p, h')"
  shows "length (blocks p) = N \<and>
         allocs (Suc N) p = (map Inr (rev (blocks p)) @ [Inl bad_alloc], p\<lparr>blocks := []\<rparr>) \<and>
         (satisfied N h \<longrightarrow> distinct (rev (blocks p)) \<and> nullptr \<notin> set (blocks p))"
proof -
  from assms have p: "blocks p = take N (answers h) @ replicate (N - length (answers h)) nullptr"
    by (auto simp: MemoryPool_ctor_def ctor_loop_eq split: option.splits)
  then have len: "length (blocks p) = N"
    by simp
  have "allocs (Suc N) p = (map Inr (rev (blocks p)) @ [Inl bad_alloc], p\<lparr>blocks := []\<rparr>)"
    by (simp add: allocs_eq len)
  moreover have "satisfied N h \<longrightarrow> distinct (rev (blocks p)) \<and> nullptr \<notin> set (blocks p)"
    by (simp add: satisfied_def p)
  ultimately show ?thesis
    using len by simp
qed

theorem allocs_constructed_witness:
  "MemoryPool_ctor 4 4 heap_four =
     (Inr \<lparr>blocks = [4096, 4112, 4128, 4144], blockSize = 4, capacity = 4\<rparr>,
      heap_four\<lparr>answers := [],
        acquired := [(4096, 4), (4112, 4), (4128, 4), (4144, 4)]\<rparr>) \<and>
   satisfied 4 heap_four \<and>
   allocs 5 \<lparr>blocks = [4096, 4112, 4128, 4144], blockSize = 4, capacity = 4\<rparr> =
     ([Inr 4144, Inr 4128, Inr 4112, Inr 4096, Inl bad_alloc],
      \<lparr>blocks = [], blockSize = 4, capacity = 4\<rparr>) \<and>
   distinct [4144, 4128, 4112, 4096 :: addr]"
proof -
  have c: "MemoryPool_ctor 4 4 heap_four =
     (Inr \<lparr>blocks = [4096, 4112, 4128, 4144], blockSize = 4, capacity = 4\<rparr>,
      heap_four\<lparr>answers := [],
        acquired := [(4096, 4), (4112, 4), (4128, 4), (4144, 4)]\<rparr>)"
    by (simp add: MemoryPool_ctor_def reserve_def ctor_loop.simps malloc_def heap_four_def
        nullptr_def)
  have s: "satisfied 4 heap_four"
    by (simp add: satisfied_def heap_four_def nullptr_def)
  from allocs_constructed [OF c] s show ?thesis
    using c by simp
qed

subsection \<open>C2: what the construction does when the system allocator refuses\<close>

text \<open>
  With a system allocator that has one block left, the construction of a pool of
  capacity 2 does not fail: it returns a pool whose second entry is the null pointer,
  and the block acquired for the first entry is not given back.
\<close>

theorem MemoryPool_ctor_unchecked_counterexample:
  "MemoryPool_ctor 4 2 heap_one =
     (Inr \<lparr>blocks = [4096, nullptr], blockSize = 4, capacity = 2\<rparr>,
      heap_one\<lparr>answers := [], acquired := [(4096, 4)]\<rparr>)"
  by (simp add: MemoryPool_ctor_def reserve_def ctor_loop.simps malloc_def heap_one_def
      nullptr_def)

text \<open>
  Claim C2, as the code has it. For every \<open>blockSize\<close> and \<open>capacity\<close>, the construction
  either fails in the reservation of the vector, before any block is requested, so that
  the system allocator is left as it was; or it succeeds with \<open>capacity\<close> entries in the
  free list, which are the answers of the system allocator to \<open>capacity\<close> requests of
  \<open>blockSize\<close> bytes in order, a null pointer for each request refused, and every block
  acquired stays acquired.
\<close>

theorem MemoryPool_ctor_outcome:
  "(case reserve cap h of
      Some e \<Rightarrow> MemoryPool_ctor bs cap h = (Inl e, h)
    | None \<Rightarrow>
        MemoryPool_ctor bs cap h =
          (Inr \<lparr>blocks = take cap (answers h) @ replicate (cap - length (answers h)) nullptr,
                blockSize = bs, capacity = cap\<rparr>,
           h\<lparr>answers := drop cap (answers h),
             acquired := acquired h @
               map (\<lambda>a. (a, bs)) (filter (\<lambda>a. a \<noteq> nullptr) (take cap (answers h)))\<rparr>))"
  by (simp add: MemoryPool_ctor_def ctor_loop_eq split: option.split)

theorem MemoryPool_ctor_outcome_witness:
  "reserve 2000 heap_four = Some bad_alloc \<and>
   MemoryPool_ctor 4 2000 heap_four = (Inl bad_alloc, heap_four) \<and>
   reserve 3 heap_four = None \<and>
   MemoryPool_ctor 4 3 heap_four =
     (Inr \<lparr>blocks = [4096, 4112, 4128], blockSize = 4, capacity = 3\<rparr>,
      heap_four\<lparr>answers := [4144], acquired := [(4096, 4), (4112, 4), (4128, 4)]\<rparr>)"
  using MemoryPool_ctor_outcome [where cap = 2000 and h = heap_four and bs = 4]
    MemoryPool_ctor_outcome [where cap = 3 and h = heap_four and bs = 4]
  by (simp add: reserve_def heap_four_def nullptr_def)

subsection \<open>C3: a constructor that throws\<close>

text \<open>
  \<^verbatim>\<open>make_unique_pool\<close> has no handler around the placement new. On a pool with two free
  blocks, a constructor that throws leaves one free block: the block taken for the value
  is not returned.
\<close>

theorem make_unique_pool_ctor_throws_counterexample:
  "make_unique_pool checked_type (- 1) world_two =
     (Inl (thrown ''negative''), world_two\<lparr>pool := pool_two\<lparr>blocks := [4096]\<rparr>\<rparr>) \<and>
   length (blocks (pool world_two)) = 2 \<and>
   length (blocks (pool (snd (make_unique_pool checked_type (- 1) world_two)))) = 1"
  by (simp add: make_unique_pool_def allocate_def checked_type_def world_two_def pool_two_def)

text \<open>
  Claim C3, as the code has it. For every non-exhausted pool and every type whose
  constructor throws during \<^verbatim>\<open>make_unique_pool\<close>, the exception propagates and the
  state is the one the constructor left, the block taken from the pool included; when
  the constructor leaves the free list as it found it, the number of available blocks
  after the call is one less than before.
\<close>

theorem make_unique_pool_ctor_throws:
  assumes "blocks (pool w) \<noteq> []"
    and "construct T (last (blocks (pool w))) args
           (w\<lparr>pool := (pool w)\<lparr>blocks := butlast (blocks (pool w))\<rparr>\<rparr>) = (Some e, w')"
  shows "make_unique_pool T args w = (Inl e, w') \<and>
         (blocks (pool w') = butlast (blocks (pool w)) \<longrightarrow>
            length (blocks (pool (snd (make_unique_pool T args w)))) + 1 =
              length (blocks (pool w)))"
  using assms by (simp add: make_unique_pool_def allocate_def)

theorem make_unique_pool_ctor_throws_witness:
  "blocks (pool world_two) \<noteq> [] \<and>
   construct checked_type (last (blocks (pool world_two))) (- 1)
     (world_two\<lparr>pool := (pool world_two)\<lparr>blocks := butlast (blocks (pool world_two))\<rparr>\<rparr>)
     = (Some (thrown ''negative''), world_two\<lparr>pool := pool_two\<lparr>blocks := [4096]\<rparr>\<rparr>) \<and>
   blocks (pool (world_two\<lparr>pool := pool_two\<lparr>blocks := [4096]\<rparr>\<rparr>)) =
     butlast (blocks (pool world_two)) \<and>
   make_unique_pool checked_type (- 1) world_two =
     (Inl (thrown ''negative''), world_two\<lparr>pool := pool_two\<lparr>blocks := [4096]\<rparr>\<rparr>) \<and>
   length (blocks (pool (snd (make_unique_pool checked_type (- 1) world_two)))) + 1 = 2"
  using make_unique_pool_ctor_throws [of world_two checked_type "- 1" "thrown ''negative''"
      "world_two\<lparr>pool := pool_two\<lparr>blocks := [4096]\<rparr>\<rparr>"]
  by (simp add: checked_type_def world_two_def pool_two_def)

subsection \<open>C4: no aliasing among live blocks\<close>

text \<open>
  The pool constructed on a system allocator that refuses both requests holds the null
  pointer twice. Two calls of \<^verbatim>\<open>allocate\<close>, a sequence without any
  \<^verbatim>\<open>deallocate\<close>, both succeed, and the second returns the address that the
  first one checked out.
\<close>

theorem no_alias_refused_counterexample:
  "MemoryPool_ctor 4 2 heap_none =
     (Inr \<lparr>blocks = [nullptr, nullptr], blockSize = 4, capacity = 2\<rparr>, heap_none) \<and>
   in_contract [Allocate, Allocate]
     (\<lparr>blocks = [nullptr, nullptr], blockSize = 4, capacity = 2\<rparr>, []) \<and>
   run_states [Allocate, Allocate]
       (\<lparr>blocks = [nullptr, nullptr], blockSize = 4, capacity = 2\<rparr>, []) =
     [(\<lparr>blocks = [nullptr, nullptr], blockSize = 4, capacity = 2\<rparr>, []),
      (\<lparr>blocks = [nullptr], blockSize = 4, capacity = 2\<rparr>, [nullptr]),
      (\<lparr>blocks = [], blockSize = 4, capacity = 2\<rparr>, [nullptr, nullptr])] \<and>
   allocate \<lparr>blocks = [nullptr], blockSize = 4, capacity = 2\<rparr> =
     (Inr nullptr, \<lparr>blocks = [], blockSize = 4, capacity = 2\<rparr>) \<and>
   nullptr \<in> set [nullptr] \<and>
   \<not> no_alias (\<lparr>blocks = [nullptr], blockSize = 4, capacity = 2\<rparr>, [nullptr]) \<and>
   \<not> no_alias (\<lparr>blocks = [], blockSize = 4, capacity = 2\<rparr>, [nullptr, nullptr])"
  by (simp add: MemoryPool_ctor_def reserve_def ctor_loop.simps malloc_def heap_none_def
      allocate_def no_alias_def)

text \<open>
  Claim C4, as the code has it. On a pool constructed on a system allocator that
  satisfied every request of the construction, every sequence of \<^verbatim>\<open>allocate\<close> and
  \<^verbatim>\<open>deallocate\<close> calls that returns only blocks checked out of this pool and not
  yet returned has, at every point, no address twice in the free list, twice checked
  out, or both free and checked out, and at every point \<^verbatim>\<open>allocate\<close> returns an
  address that is not checked out.
\<close>

theorem no_alias_constructed:
  assumes "MemoryPool_ctor bs N h = (Inr p, h')" and "satisfied N h"
    and "in_contract cs (p, [])"
  shows "\<forall>s' \<in> set (run_states cs (p, [])).
           no_alias s' \<and>
           (\<forall>b p'. allocate (fst s') = (Inr b, p') \<longrightarrow> b \<notin> set (snd s'))"
proof -
  from assms(1,2) have "no_alias (p, [])"
    by (rule MemoryPool_ctor_no_alias)
  with assms(3) show ?thesis
    by (blast dest: run_states_no_alias no_alias_allocate)
qed

text \<open>
  The run of the concrete scenario on the pool constructed with two blocks: both are
  taken, a third call is refused, the block taken first is returned and taken again.
\<close>

theorem no_alias_constructed_witness:
  "MemoryPool_ctor 4 2 heap_four =
     (Inr pool_two, heap_four\<lparr>answers := [4128, 4144], acquired := [(4096, 4), (4112, 4)]\<rparr>) \<and>
   satisfied 2 heap_four \<and>
   in_contract [Allocate, Allocate, Allocate, Deallocate 4112, Allocate] (pool_two, []) \<and>
   run_states [Allocate, Allocate, Allocate, Deallocate 4112, Allocate] (pool_two, []) =
     [(pool_two, []),
      (pool_two\<lparr>blocks := [4096]\<rparr>, [4112]),
      (pool_two\<lparr>blocks := []\<rparr>, [4096, 4112]),
      (pool_two\<lparr>blocks := []\<rparr>, [4096, 4112]),
      (pool_two\<lparr>blocks := [4112]\<rparr>, [4096]),
      (pool_two\<lparr>blocks := []\<rparr>, [4112, 4096])] \<and>
   no_alias (pool_two, []) \<and>
   no_alias (pool_two\<lparr>blocks := [4096]\<rparr>, [4112]) \<and>
   no_alias (pool_two\<lparr>blocks := []\<rparr>, [4096, 4112]) \<and>
   no_alias (pool_two\<lparr>blocks := [4112]\<rparr>, [4096]) \<and>
   no_alias (pool_two\<lparr>blocks := []\<rparr>, [4112, 4096]) \<and>
   allocate (pool_two\<lparr>blocks := [4112]\<rparr>) = (Inr 4112, pool_two\<lparr>blocks := []\<rparr>) \<and>
   4112 \<notin> set [4096 :: addr]"
proof -
  have a: "MemoryPool_ctor 4 2 heap_four =
     (Inr pool_two, heap_four\<lparr>answers := [4128, 4144], acquired := [(4096, 4), (4112, 4)]\<rparr>)"
    by (simp add: MemoryPool_ctor_def reserve_def ctor_loop.simps malloc_def heap_four_def
        pool_two_def nullptr_def)
  have s: "satisfied 2 heap_four"
    by (simp add: satisfied_def heap_four_def nullptr_def)
  have b: "in_contract [Allocate, Allocate, Allocate, Deallocate 4112, Allocate] (pool_two, [])"
    by (simp add: pool_two_def allocate_def deallocate_def)
  have c: "run_states [Allocate, Allocate, Allocate, Deallocate 4112, Allocate] (pool_two, []) =
     [(pool_two, []),
      (pool_two\<lparr>blocks := [4096]\<rparr>, [4112]),
      (pool_two\<lparr>blocks := []\<rparr>, [4096, 4112]),
      (pool_two\<lparr>blocks := []\<rparr>, [4096, 4112]),
      (pool_two\<lparr>blocks := [4112]\<rparr>, [4096]),
      (pool_two\<lparr>blocks := []\<rparr>, [4112, 4096])]"
    by (simp add: pool_two_def allocate_def deallocate_def)
  have d: "allocate (pool_two\<lparr>blocks := [4112]\<rparr>) = (Inr 4112, pool_two\<lparr>blocks := []\<rparr>)"
    by (simp add: pool_two_def allocate_def)
  from no_alias_constructed [OF a s b] show ?thesis
    unfolding c using a s b c d by simp
qed

subsection \<open>C5: allocate and deallocate, repeated\<close>

text \<open>
  Claim C5. On every pool that is not exhausted, \<^verbatim>\<open>deallocate(allocate())\<close> performed
  \<open>k\<close> times runs without an exception and leaves the pool as it was, so the number of
  available blocks is the initial one, and a following \<^verbatim>\<open>allocate()\<close> succeeds.
\<close>

theorem roundtrip_preserves:
  assumes "blocks p \<noteq> []"
  shows "roundtrip k p = (Inr (), p) \<and>
         length (blocks (snd (roundtrip k p))) = length (blocks p) \<and>
         (\<exists>b. fst (allocate (snd (roundtrip k p))) = Inr b)"
  using assms by (simp add: roundtrip_id allocate_nonempty)

theorem roundtrip_preserves_witness:
  "blocks pool_two \<noteq> [] \<and> roundtrip 3 pool_two = (Inr (), pool_two) \<and>
   length (blocks (snd (roundtrip 3 pool_two))) = 2 \<and>
   fst (allocate (snd (roundtrip 3 pool_two))) = Inr 4112"
  using roundtrip_preserves [of pool_two 3]
  by (simp add: pool_two_def allocate_def)

subsection \<open>C6: releasing a handle\<close>

text \<open>
  Claim C6. A handle that \<^verbatim>\<open>make_unique_pool\<close> produced owns the block the pool
  handed out. Releasing it, in whatever state the program is by then, runs the
  destructor of \<^verbatim>\<open>T\<close> on the value and then \<^verbatim>\<open>deallocate\<close> on the block, applied
  to the pool as the destructor left it; the handle owns nothing afterwards, so that
  releasing it again changes nothing. The handle owns a value, that is, its pointer is
  not null: a null block is in a pool only after a refused \<^verbatim>\<open>malloc\<close>, and
  constructing a value there is undefined.
\<close>

theorem handle_release:
  assumes "make_unique_pool T args w = (Inr u, w1)" and "ptr u \<noteq> nullptr"
  shows "ptr u = last (blocks (pool w)) \<and>
         unique_ptr_reset u w2 =
           (u\<lparr>ptr := nullptr\<rparr>,
            (destruct T (ptr u) w2)\<lparr>pool := deallocate (ptr u) (pool (destruct T (ptr u) w2))\<rparr>) \<and>
         unique_ptr_reset (fst (unique_ptr_reset u w2)) w3 = (fst (unique_ptr_reset u w2), w3)"
proof -
  from assms(1) have u: "u = \<lparr>ptr = last (blocks (pool w)), deleter = pool_deleter T\<rparr>"
    by (auto simp: make_unique_pool_def allocate_def split: if_splits prod.splits option.splits)
  with assms(2) show ?thesis
    by (simp add: unique_ptr_reset_def pool_deleter_def Let_def)
qed

text \<open>
  The destructor of the probe notes one free block: it ran once, while the block of the
  value was still checked out; the block is in the free list afterwards.
\<close>

theorem handle_release_witness:
  "make_unique_pool probe_type () world_probe =
     (Inr \<lparr>ptr = 4112, deleter = pool_deleter probe_type\<rparr>,
      world_probe\<lparr>pool := pool_two\<lparr>blocks := [4096]\<rparr>\<rparr>) \<and>
   (4112 :: addr) \<noteq> nullptr \<and>
   unique_ptr_reset \<lparr>ptr = 4112, deleter = pool_deleter probe_type\<rparr>
       (world_probe\<lparr>pool := pool_two\<lparr>blocks := [4096]\<rparr>\<rparr>) =
     (\<lparr>ptr = nullptr, deleter = pool_deleter probe_type\<rparr>,
      \<lparr>pool = pool_two, mem = [(4112, 1)]\<rparr>) \<and>
   unique_ptr_reset \<lparr>ptr = nullptr, deleter = pool_deleter probe_type\<rparr>
       \<lparr>pool = pool_two, mem = [(4112, 1)]\<rparr> =
     (\<lparr>ptr = nullptr, deleter = pool_deleter probe_type\<rparr>,
      \<lparr>pool = pool_two, mem = [(4112, 1)]\<rparr>)"
proof -
  have m: "make_unique_pool probe_type () world_probe =
     (Inr \<lparr>ptr = 4112, deleter = pool_deleter probe_type\<rparr>,
      world_probe\<lparr>pool := pool_two\<lparr>blocks := [4096]\<rparr>\<rparr>)"
    by (simp add: make_unique_pool_def allocate_def probe_type_def world_probe_def pool_two_def)
  have n: "ptr \<lparr>ptr = 4112, deleter = pool_deleter probe_type\<rparr> \<noteq> nullptr"
    by (simp add: nullptr_def)
  from handle_release [OF m n, of "world_probe\<lparr>pool := pool_two\<lparr>blocks := [4096]\<rparr>\<rparr>"
      "\<lparr>pool = pool_two, mem = [(4112, 1)]\<rparr>"] m
  show ?thesis
    by (simp add: probe_type_def world_probe_def pool_two_def deallocate_def nullptr_def
        unique_ptr_reset_def)
qed

subsection \<open>C7: creation on an exhausted pool\<close>

text \<open>
  Claim C7. On an exhausted pool \<^verbatim>\<open>make_unique_pool\<close> throws \<open>bad_alloc\<close> and leaves
  the whole state, the pool and the memory of the objects, as it was, whatever the
  constructor of \<^verbatim>\<open>T\<close> would do: the constructor is not run.
\<close>

theorem make_unique_pool_exhausted:
  assumes "blocks (pool w) = []"
  shows "make_unique_pool T args w = (Inl bad_alloc, w)"
  using assms by (simp add: make_unique_pool_def allocate_def)

theorem make_unique_pool_exhausted_witness:
  "blocks (pool world_spent) = [] \<and>
   make_unique_pool int_type 42 world_spent = (Inl bad_alloc, world_spent)"
  using make_unique_pool_exhausted [of world_spent int_type 42]
  by (simp add: world_spent_def pool_spent_def)

subsection \<open>C8: allocate is determined by the free list\<close>

text \<open>
  Claim C8. Two pools with the same free list, in the same order, get the same outcome
  from \<^verbatim>\<open>allocate\<close>, the same address or the same exception, and the same free list
  afterwards; when they agree on block size and capacity as well, the two calls agree
  altogether.
\<close>

theorem allocate_deterministic:
  assumes "blocks p = blocks q"
  shows "fst (allocate p) = fst (allocate q) \<and>
         blocks (snd (allocate p)) = blocks (snd (allocate q)) \<and>
         (blockSize p = blockSize q \<and> capacity p = capacity q \<longrightarrow> allocate p = allocate q)"
  using assms by (simp add: allocate_def)

theorem allocate_deterministic_witness:
  "blocks pool_two = blocks (pool_two\<lparr>capacity := 7\<rparr>) \<and>
   fst (allocate pool_two) = Inr 4112 \<and>
   fst (allocate (pool_two\<lparr>capacity := 7\<rparr>)) = Inr 4112 \<and>
   blocks (snd (allocate pool_two)) = [4096] \<and>
   blocks (snd (allocate (pool_two\<lparr>capacity := 7\<rparr>))) = [4096] \<and>
   blockSize pool_two = blockSize \<lparr>blocks = [4096, 4112], blockSize = 4, capacity = 2\<rparr> \<and>
   capacity pool_two = capacity \<lparr>blocks = [4096, 4112], blockSize = 4, capacity = 2\<rparr> \<and>
   allocate pool_two = allocate \<lparr>blocks = [4096, 4112], blockSize = 4, capacity = 2\<rparr>"
  using allocate_deterministic [of pool_two "pool_two\<lparr>capacity := 7\<rparr>"]
    allocate_deterministic [of pool_two "\<lparr>blocks = [4096, 4112], blockSize = 4, capacity = 2\<rparr>"]
  by (simp add: pool_two_def allocate_def)

subsection \<open>C9: the query for available memory\<close>

text \<open>
  Claim C9. \<^verbatim>\<open>hasAvailableMemory()\<close> returns true if and only if the free list has an
  element, and leaves the pool, that is the free list, the block size and the capacity,
  as it was.
\<close>

theorem hasAvailableMemory_pure:
  "fst (hasAvailableMemory p) = (set (blocks p) \<noteq> {}) \<and> snd (hasAvailableMemory p) = p"
  by (simp add: hasAvailableMemory_def)

subsection \<open>C10: the element count of the allocator adapter\<close>

text \<open>
  On a pool whose blocks are all checked out, \<^verbatim>\<open>PoolAllocator::allocate(1)\<close> throws
  \<open>bad_alloc\<close>, through its own test in one version of the file and through
  \<^verbatim>\<open>pool.allocate()\<close> in the other, and removes no block.
\<close>

theorem PoolAllocator_allocate_spent_counterexample:
  "PoolAllocator_allocate 1 pool_spent = (Inl bad_alloc, pool_spent) \<and>
   PoolAllocator_allocate_v0 1 pool_spent = (Inl bad_alloc, pool_spent) \<and>
   blocks pool_spent = []"
  by (simp add: PoolAllocator_allocate_def PoolAllocator_allocate_v0_def
      hasAvailableMemory_def allocate_def pool_spent_def)

text \<open>
  Claim C10, as the code has it. \<^verbatim>\<open>PoolAllocator::allocate(n)\<close> returns a null
  pointer and leaves the pool as it was when \<open>n = 0\<close>. For every \<open>n \<ge> 1\<close>, whatever its
  value, it removes one block, the last of the free list, and returns it when the pool
  is not exhausted, and throws \<open>bad_alloc\<close>, leaving the pool as it was, when it is.
\<close>

theorem PoolAllocator_allocate_one_block:
  "(n = 0 \<longrightarrow> PoolAllocator_allocate n p = (Inr nullptr, p)) \<and>
   (1 \<le> n \<and> blocks p \<noteq> [] \<longrightarrow>
      PoolAllocator_allocate n p =
        (Inr (last (blocks p)), p\<lparr>blocks := butlast (blocks p)\<rparr>) \<and>
      length (blocks (snd (PoolAllocator_allocate n p))) + 1 = length (blocks p)) \<and>
   (1 \<le> n \<and> blocks p = [] \<longrightarrow> PoolAllocator_allocate n p = (Inl bad_alloc, p))"
  by (simp add: PoolAllocator_allocate_def hasAvailableMemory_def allocate_def)

theorem PoolAllocator_allocate_one_block_witness:
  "PoolAllocator_allocate 0 pool_two = (Inr nullptr, pool_two) \<and>
   (1::nat) \<le> 5 \<and> blocks pool_two \<noteq> [] \<and>
   PoolAllocator_allocate 5 pool_two = (Inr 4112, pool_two\<lparr>blocks := [4096]\<rparr>) \<and>
   length (blocks (snd (PoolAllocator_allocate 5 pool_two))) + 1 = length (blocks pool_two) \<and>
   blocks pool_spent = [] \<and> PoolAllocator_allocate 5 pool_spent = (Inl bad_alloc, pool_spent)"
  using PoolAllocator_allocate_one_block [of 0 pool_two]
    PoolAllocator_allocate_one_block [of 5 pool_two]
    PoolAllocator_allocate_one_block [of 5 pool_spent]
  by (simp add: pool_two_def pool_spent_def)

end
